theory Spec2Isabelle
  imports Main "HOL-Library.Word"
begin

section \<open>Data model of internal/auth/auth.go\<close>

text \<open>
  \<open>AuthSource\<close> is a Go \<open>int\<close> with three named constants (iota 0, 1, 2); the code
  also stores the literal \<open>-1\<close> in it, so it is modelled as an integer.
  \<open>AuthType\<close> only ever holds its two named constants.
\<close>

type_synonym AuthSource = int

definition AuthViaLocalPassword :: AuthSource where "AuthViaLocalPassword = 0"
definition AuthViaLDAP :: AuthSource where "AuthViaLDAP = 1"
definition AuthViaToken :: AuthSource where "AuthViaToken = 2"

datatype AuthType = AuthToken | AuthSession

record User =
  Username :: string
  Password :: string
  Name :: string
  Roles :: "string list"
  AuthType :: AuthType
  AuthSource :: AuthSource
  Email :: string
  Projects :: "string list"
  Expiration :: int

text \<open>
  A Go \<open>error\<close> value. \<open>sql.ErrNoRows\<close> is a sentinel compared by identity;
  \<open>errors.New\<close> makes every other error of this file.
\<close>

datatype error = ErrNoRows | Error string

fun Error_text :: "error \<Rightarrow> string" where
  "Error_text ErrNoRows = ''sql: no rows in result set''"
| "Error_text (Error s) = s"

text \<open>
  A value of type \<open>interface{}\<close>, as stored in a session and in a request context.
  A \<open>*User\<close> may be a nil pointer; a \<open>[]string\<close> is a list (nil is the empty list).
\<close>

datatype any = ANil | AString string | AStrings "string list" | AUser "User option" | AOther

text \<open>The type assertions \<open>v, _ = val.(T)\<close>: the zero value of \<open>T\<close> on a mismatch.\<close>

fun as_string :: "any \<Rightarrow> string" where
  "as_string (AString s) = s"
| "as_string _ = []"

fun as_strings :: "any \<Rightarrow> string list" where
  "as_strings (AStrings xs) = xs"
| "as_strings _ = []"

record Options =
  MaxAge :: int

record Session =
  Values :: "string \<Rightarrow> any option"
  Options :: Options
  IsNew :: bool

datatype ContextKey = ContextKey string

definition ContextUserKey :: ContextKey where
  "ContextUserKey = ContextKey ''user''"

type_synonym Context = "ContextKey \<Rightarrow> any option"

text \<open>\<open>ctx.Value(key)\<close>: nil when the key is absent (and when nil was stored).\<close>

definition Context_Value :: "Context \<Rightarrow> ContextKey \<Rightarrow> any" where
  "Context_Value ctx k = (case ctx k of None \<Rightarrow> ANil | Some v \<Rightarrow> v)"

definition WithValue :: "Context \<Rightarrow> ContextKey \<Rightarrow> any \<Rightarrow> Context" where
  "WithValue ctx k v = ctx(k \<mapsto> v)"

record Request =
  FormValue :: "string \<Rightarrow> string"
  Header :: "string \<Rightarrow> string"
  Cookies :: "string \<Rightarrow> string option"
  Context :: Context

text \<open>What a function returns, or that it panicked.\<close>

datatype 'a go_result = Returned 'a | Panic

section \<open>GetUser\<close>

text \<open>
  \<open>x.(*User)\<close> without the comma-ok form panics when the stored value is not a
  \<open>*User\<close>.
\<close>

definition GetUser :: "Context \<Rightarrow> User option go_result" where
  "GetUser ctx =
     (case Context_Value ctx ContextUserKey of
        ANil \<Rightarrow> Returned None
      | AUser p \<Rightarrow> Returned p
      | _ \<Rightarrow> Panic)"

section \<open>Effects and external collaborators\<close>

datatype level = LDebug | LInfo | LWarn | LError

text \<open>
  The calls a handler makes to its collaborators, in order. \<open>'a\<close> is the type of
  the authenticator objects.
\<close>

datatype 'a event =
    Log level string
  | SessionGetCalled
  | SessionNewCalled
  | SessionSaveCalled Session
  | GetUserCalled string
  | AddUserCalled User
  | AuthViaJWTCalled
  | CanLoginCalled 'a
  | LoginCalled 'a
  | InitCalled 'a

text \<open>
  How a request handler ends: one of the two continuations, \<open>http.Error\<close> with a
  message and a status, or a panic.
\<close>

datatype outcome =
    OnSuccess Request
  | OnFailure "error option"
  | HttpError string nat
  | Panicked

definition StatusUnauthorized :: nat where "StatusUnauthorized = 401"
definition StatusInternalServerError :: nat where "StatusInternalServerError = 500"

text \<open>
  The collaborators that are not in this file: the cookie session store
  (gorilla/sessions), the user table (\<open>auth.GetUser\<close>, \<open>auth.AddUser\<close>), the JWT
  check and the methods of the \<open>Authenticator\<close> interface. Each is a parameter
  giving the result of the call.
\<close>

record 'a Env =
  store_Get :: "Request \<Rightarrow> Session \<times> error option"
  store_New :: "Request \<Rightarrow> Session \<times> error option"
  store_Save :: "Request \<Rightarrow> Session \<Rightarrow> error option"
  db_GetUser :: "string \<Rightarrow> User option \<times> error option"
  db_AddUser :: "User \<Rightarrow> error option"
  AuthViaJWT :: "Request \<Rightarrow> User option \<times> error option"
  CanLogin :: "'a \<Rightarrow> User option \<Rightarrow> Request \<Rightarrow> bool"
  Login_of :: "'a \<Rightarrow> User option \<Rightarrow> Request \<Rightarrow> User option \<times> error option"

record 'a Authentication =
  sessionStore :: "8 word list"
  SessionMaxAge :: "64 word"
  authenticators :: "'a list"
  LdapAuth :: "'a option"
  JwtAuth :: "'a option"
  LocalAuth :: "'a option"

section \<open>AuthViaSession\<close>

definition AuthViaSession ::
  "'a Env \<Rightarrow> Request \<Rightarrow> 'a event list \<times> User option \<times> error option" where
  "AuthViaSession env r =
     (case store_Get env r of
        (session, Some err) \<Rightarrow>
          ([SessionGetCalled, Log LError ''Error while getting session store''], None, Some err)
      | (session, None) \<Rightarrow>
          if IsNew session then ([SessionGetCalled], None, None)
          else
            (case Values session ''username'' of
               None \<Rightarrow> ([SessionGetCalled], None, Some (Error ''No key username in session''))
             | Some val1 \<Rightarrow>
                 (case Values session ''projects'' of
                    None \<Rightarrow> ([SessionGetCalled], None, Some (Error ''No key projects in session''))
                  | Some val2 \<Rightarrow>
                      (case Values session ''projects'' of
                         None \<Rightarrow> ([SessionGetCalled], None, Some (Error ''No key roles in session''))
                       | Some val3 \<Rightarrow>
                           ([SessionGetCalled],
                            Some \<lparr> Username = as_string val1, Password = [], Name = [],
                                   Roles = as_strings val3, AuthType = AuthSession,
                                   AuthSource = - 1, Email = [],
                                   Projects = as_strings val2, Expiration = 0 \<rparr>,
                            None)))))"

section \<open>Auth\<close>

definition with_user :: "Request \<Rightarrow> User option \<Rightarrow> Request" where
  \<comment> \<open>\<open>r.WithContext(context.WithValue(r.Context(), ContextUserKey, user))\<close>\<close>
  "with_user r user = r\<lparr> Context := WithValue (Context r) ContextUserKey (AUser user) \<rparr>"

definition Auth :: "'a Env \<Rightarrow> Request \<Rightarrow> 'a event list \<times> outcome" where
  "Auth env r =
     (case AuthViaJWT env r of
        (Some u, err) \<Rightarrow> ([AuthViaJWTCalled], OnSuccess (with_user r (Some u)))
      | (None, err) \<Rightarrow>
          (case AuthViaSession env r of
             (evs, user, Some err') \<Rightarrow>
               (AuthViaJWTCalled # evs @ [Log LInfo ''authentication failed''],
                HttpError (Error_text err') StatusUnauthorized)
           | (evs, Some u, None) \<Rightarrow>
               (AuthViaJWTCalled # evs, OnSuccess (with_user r (Some u)))
           | (evs, None, None) \<Rightarrow>
               (AuthViaJWTCalled # evs @
                  [Log LDebug ''authentication failed: no authenticator applied''],
                OnFailure (Some (Error ''unauthorized (please login first)'')))))"

section \<open>Logout\<close>

definition Logout :: "'a Env \<Rightarrow> Request \<Rightarrow> 'a event list \<times> outcome" where
  "Logout env r =
     (case store_Get env r of
        (session, Some err) \<Rightarrow>
          ([SessionGetCalled], HttpError (Error_text err) StatusInternalServerError)
      | (session, None) \<Rightarrow>
          if \<not> IsNew session then
            (let session' = session\<lparr> Options := (Options session)\<lparr> MaxAge := - 1 \<rparr> \<rparr>
             in case store_Save env r session' of
                  Some err \<Rightarrow>
                    ([SessionGetCalled, SessionSaveCalled session'],
                     HttpError (Error_text err) StatusInternalServerError)
                | None \<Rightarrow> ([SessionGetCalled, SessionSaveCalled session'], OnSuccess r))
          else ([SessionGetCalled], OnSuccess r))"

section \<open>The conversion \<open>int(d.Seconds())\<close>\<close>

text \<open>
  \<open>Duration.Seconds\<close> of the Go library is
  \<^verbatim>\<open>sec := d / Second; nsec := d % Second; return float64(sec) + float64(nsec)/1e9\<close>
  on a 64-bit count of nanoseconds. Integer division and remainder truncate toward
  zero. A finite binary64 value is the pair \<open>(m, e)\<close> of an integer and an exponent,
  standing for \<open>m * 2 ^ e\<close>; every operation rounds its exact result to 53
  significant bits, to nearest and ties to even. The values that occur here are
  zero or lie between \<open>1e-9\<close> and \<open>1e10\<close> in magnitude, so neither the subnormal
  range nor overflow is reached.
\<close>

definition go_quot :: "int \<Rightarrow> int \<Rightarrow> int" where
  \<comment> \<open>Go's \<open>/\<close> on integers: the quotient without its fraction\<close>
  "go_quot a b = (if (a < 0) = (b < 0) then \<bar>a\<bar> div \<bar>b\<bar> else - (\<bar>a\<bar> div \<bar>b\<bar>))"

definition go_rem :: "int \<Rightarrow> int \<Rightarrow> int" where
  \<comment> \<open>Go's \<open>%\<close>: the remainder has the sign of the dividend\<close>
  "go_rem a b = (if a < 0 then - (\<bar>a\<bar> mod \<bar>b\<bar>) else \<bar>a\<bar> mod \<bar>b\<bar>)"

type_synonym float64 = "int \<times> int"

function bits :: "int \<Rightarrow> nat" where
  \<comment> \<open>the number of binary digits of a positive integer\<close>
  "bits n = (if n \<le> 0 then 0 else Suc (bits (n div 2)))"
  by pat_completeness auto
termination
  by (relation "measure nat") auto

definition rne_shift :: "int \<Rightarrow> nat \<Rightarrow> int" where
  \<comment> \<open>\<open>m / 2 ^ s\<close> for \<open>m \<ge> 0\<close>, rounded to the nearest integer, ties to even\<close>
  "rne_shift m s =
     (if s = 0 then m
      else let q = m div 2 ^ s; r = m mod 2 ^ s; h = 2 ^ (s - 1)
           in if r < h then q else if h < r then q + 1 else if even q then q else q + 1)"

definition round53 :: "float64 \<Rightarrow> float64" where
  "round53 x =
     (case x of (m, e) \<Rightarrow>
        let b = bits \<bar>m\<bar>
        in if b \<le> 53 then (m, e)
           else (sgn m * rne_shift \<bar>m\<bar> (b - 53), e + int (b - 53)))"

definition float64_of_int :: "int \<Rightarrow> float64" where
  "float64_of_int n = round53 (n, 0)"

definition float64_add :: "float64 \<Rightarrow> float64 \<Rightarrow> float64" where
  "float64_add x y =
     (case x of (m1, e1) \<Rightarrow> case y of (m2, e2) \<Rightarrow>
        let e = min e1 e2
        in round53 (m1 * 2 ^ nat (e1 - e) + m2 * 2 ^ nat (e2 - e), e))"

definition float64_quot :: "int \<Rightarrow> int \<Rightarrow> float64" where
  \<comment> \<open>\<open>float64(n) / float64(d)\<close> for integers that are binary64 values, \<open>d > 0\<close>:
      the quotient is taken with at least 64 bits and a sticky bit, then rounded\<close>
  "float64_quot n d =
     (if n = 0 then (0, 0)
      else let k = 64 + bits d;
               q = (\<bar>n\<bar> * 2 ^ k) div d;
               r = (\<bar>n\<bar> * 2 ^ k) mod d
           in round53 (sgn n * (2 * q + (if r = 0 then 0 else 1)), - int k - 1))"

definition int_of_float64 :: "float64 \<Rightarrow> int" where
  \<comment> \<open>the conversion \<open>int(f)\<close>: the fraction is discarded (toward zero)\<close>
  "int_of_float64 x =
     (case x of (m, e) \<Rightarrow>
        if 0 \<le> e then m * 2 ^ nat e else sgn m * (\<bar>m\<bar> div 2 ^ nat (- e)))"

definition Second :: int where "Second = 1000000000"

definition Duration_Seconds :: "64 word \<Rightarrow> float64" where
  "Duration_Seconds d =
     (let sec = go_quot (sint d) Second; nsec = go_rem (sint d) Second
      in float64_add (float64_of_int sec) (float64_quot nsec 1000000000))"

section \<open>Login\<close>

definition Login_candidate ::
  "'a Env \<Rightarrow> Request \<Rightarrow> 'a event list \<times> User option \<times> error option" where
  \<comment> \<open>lines 196 to 205: the candidate \<open>dbUser\<close> and the variable \<open>err\<close>\<close>
  "Login_candidate env r =
     (let err = Some (Error ''no authenticator applied'');
          username = FormValue r ''username''
      in if username \<noteq> [] then
           (case db_GetUser env username of
              (dbUser, err') \<Rightarrow>
                (GetUserCalled username #
                   (if err' \<noteq> None \<and> err' \<noteq> Some ErrNoRows
                    then [Log LError ''Error while loading user''] else []),
                 dbUser, err'))
         else ([], None, err))"

definition Login_session :: "'a Authentication \<Rightarrow> Session \<Rightarrow> User \<Rightarrow> Session" where
  \<comment> \<open>lines 226 to 231: what Login writes into the fresh session\<close>
  "Login_session auth session user =
     (let session1 =
            (if SessionMaxAge auth \<noteq> 0
             then session\<lparr> Options := (Options session)
                    \<lparr> MaxAge := int_of_float64 (Duration_Seconds (SessionMaxAge auth)) \<rparr> \<rparr>
             else session)
      in session1\<lparr> Values := (Values session1)
           (''username'' \<mapsto> AString (Username user),
            ''projects'' \<mapsto> AStrings (Projects user),
            ''roles'' \<mapsto> AStrings (Roles user)) \<rparr>)"

definition Login_attempt ::
  "'a Env \<Rightarrow> 'a Authentication \<Rightarrow> Request \<Rightarrow> User option \<Rightarrow> 'a \<Rightarrow> 'a event list \<times> outcome" where
  \<comment> \<open>lines 212 to 249: the loop body once \<open>CanLogin\<close> was true\<close>
  "Login_attempt env auth r dbUser a =
     (case Login_of env a dbUser r of
        (user, Some err) \<Rightarrow>
          ([LoginCalled a, Log LWarn ''user login failed''], OnFailure (Some err))
      | (user, None) \<Rightarrow>
          (case store_New env r of
             (session, Some err) \<Rightarrow>
               ([LoginCalled a, SessionNewCalled, Log LError ''session creation failed''],
                HttpError (Error_text err) StatusInternalServerError)
           | (session, None) \<Rightarrow>
               (case user of
                  None \<Rightarrow> ([LoginCalled a, SessionNewCalled], Panicked)
                | Some u \<Rightarrow>
                    (let session' = Login_session auth session u
                     in case store_Save env r session' of
                          Some err \<Rightarrow>
                            ([LoginCalled a, SessionNewCalled, SessionSaveCalled session',
                              Log LWarn ''session save failed''],
                             HttpError (Error_text err) StatusInternalServerError)
                        | None \<Rightarrow>
                            ([LoginCalled a, SessionNewCalled, SessionSaveCalled session'] @
                             (if dbUser = None
                              then AddUserCalled u #
                                     (if db_AddUser env u \<noteq> None
                                      then [Log LError ''Error while adding user''] else [])
                              else []) @
                             [Log LInfo ''login successfull''],
                             OnSuccess (with_user r (Some u)))))))"

fun Login_loop ::
  "'a Env \<Rightarrow> 'a Authentication \<Rightarrow> Request \<Rightarrow> User option \<Rightarrow> error option \<Rightarrow> 'a list
     \<Rightarrow> 'a event list \<times> outcome" where
  "Login_loop env auth r dbUser err [] =
     ([Log LDebug ''login failed: no authenticator applied''], OnFailure err)"
| "Login_loop env auth r dbUser err (a # rest) =
     (if \<not> CanLogin env a dbUser r
      then (case Login_loop env auth r dbUser err rest of
              (evs, out) \<Rightarrow> (CanLoginCalled a # evs, out))
      else (case Login_attempt env auth r dbUser a of
              (evs, out) \<Rightarrow> (CanLoginCalled a # evs, out)))"

definition Login :: "'a Env \<Rightarrow> 'a Authentication \<Rightarrow> Request \<Rightarrow> 'a event list \<times> outcome" where
  "Login env auth r =
     (case Login_candidate env r of
        (evs, dbUser, err) \<Rightarrow>
          (case Login_loop env auth r dbUser err (authenticators auth) of
             (evs', out) \<Rightarrow> (evs @ evs', out)))"

section \<open>Init\<close>

datatype Authenticator =
    JWTAuthenticator
  | LdapAuthenticator
  | JWTSessionAuthenticator
  | JWTCookieSessionAuthenticator
  | LocalAuthenticator

text \<open>
  What \<open>Init\<close> reads from outside: the environment variable, the random source, the
  base64 decoder, and the \<open>Init\<close> method of each authenticator (the result of
  calling it on that object with that configuration). \<open>'c\<close> is the type of a
  configuration block.
\<close>

record 'c InitEnv =
  Getenv_SESSION_KEY :: string
  rand_Read :: "8 word list \<times> error option"
  base64_DecodeString :: "string \<Rightarrow> 8 word list \<times> error option"
  Init_of :: "Authenticator \<Rightarrow> 'c option \<Rightarrow> error option"

definition Init_sessionStore ::
  "'c InitEnv \<Rightarrow> Authenticator event list \<times> 8 word list \<times> error option" where
  \<comment> \<open>lines 134 to 150: the key of the cookie store\<close>
  "Init_sessionStore ienv =
     (if Getenv_SESSION_KEY ienv = [] then
        (case rand_Read ienv of
           (bytes, Some err) \<Rightarrow>
             ([Log LWarn ''environment variable SESSION_KEY not set'',
               Log LError ''failed to generate random bytes for session key''], [], Some err)
         | (bytes, None) \<Rightarrow>
             ([Log LWarn ''environment variable SESSION_KEY not set''], bytes, None))
      else
        (case base64_DecodeString ienv (Getenv_SESSION_KEY ienv) of
           (bytes, Some err) \<Rightarrow> ([Log LError ''decoding session key failed''], [], Some err)
         | (bytes, None) \<Rightarrow> ([], bytes, None)))"

definition Init_optional ::
  "'c InitEnv \<Rightarrow> (string \<Rightarrow> 'c option) \<Rightarrow> Authenticator list
     \<Rightarrow> Authenticator event list \<times> Authenticator list" where
  \<comment> \<open>lines 167 to 179: both blocks call \<open>Init\<close> on \<open>jwtSessionAuth\<close>\<close>
  "Init_optional ienv configs auths =
     (let (evs1, auths1) =
            (if Init_of ienv JWTSessionAuthenticator (configs ''jwt'') \<noteq> None
             then ([InitCalled JWTSessionAuthenticator, Log LWarn ''jwtSessionAuth init failed''],
                   auths)
             else ([InitCalled JWTSessionAuthenticator], auths @ [JWTSessionAuthenticator]));
          (evs2, auths2) =
            (if Init_of ienv JWTSessionAuthenticator (configs ''jwt'') \<noteq> None
             then ([InitCalled JWTSessionAuthenticator,
                    Log LWarn ''jwtCookieSessionAuth init failed''], auths1)
             else ([InitCalled JWTSessionAuthenticator],
                   auths1 @ [JWTCookieSessionAuthenticator]))
      in (evs1 @ evs2, auths2))"

definition Init ::
  "'c InitEnv \<Rightarrow> (string \<Rightarrow> 'c option)
     \<Rightarrow> Authenticator event list \<times> Authenticator Authentication option \<times> error option" where
  "Init ienv configs =
     (case Init_sessionStore ienv of
        (evs0, key, Some err) \<Rightarrow> (evs0, None, Some err)
      | (evs0, key, None) \<Rightarrow>
          (case Init_of ienv JWTAuthenticator (configs ''jwt'') of
             Some err \<Rightarrow>
               (evs0 @ [InitCalled JWTAuthenticator, Log LError ''jwtAuth init failed''],
                None, Some err)
           | None \<Rightarrow>
               (case (case configs ''ldap'' of
                        None \<Rightarrow> ([], None, [], None)
                      | Some config \<Rightarrow>
                          (case Init_of ienv LdapAuthenticator (Some config) of
                             Some err \<Rightarrow>
                               ([InitCalled LdapAuthenticator,
                                 Log LError ''ldapAuth init failed''],
                                Some LdapAuthenticator, [], Some err)
                           | None \<Rightarrow>
                               ([InitCalled LdapAuthenticator],
                                Some LdapAuthenticator, [LdapAuthenticator], None))) of
                  (evs1, ldap, auths1, Some err) \<Rightarrow>
                    (evs0 @ InitCalled JWTAuthenticator # evs1, None, Some err)
                | (evs1, ldap, auths1, None) \<Rightarrow>
                    (case Init_optional ienv configs auths1 of
                       (evs2, auths2) \<Rightarrow>
                         (case Init_of ienv LocalAuthenticator None of
                            Some err \<Rightarrow>
                              (evs0 @ InitCalled JWTAuthenticator # evs1 @ evs2 @
                                 [InitCalled LocalAuthenticator,
                                  Log LError ''localAuth init failed''],
                               None, Some err)
                          | None \<Rightarrow>
                              (evs0 @ InitCalled JWTAuthenticator # evs1 @ evs2 @
                                 [InitCalled LocalAuthenticator],
                               Some \<lparr> sessionStore = key, SessionMaxAge = 0,
                                      authenticators = auths2 @ [LocalAuthenticator],
                                      LdapAuth = ldap,
                                      JwtAuth = Some JWTAuthenticator,
                                      LocalAuth = Some LocalAuthenticator \<rparr>,
                               None))))))"

section \<open>Reading the effects\<close>

fun saved_sessions :: "'a event list \<Rightarrow> Session list" where
  "saved_sessions [] = []"
| "saved_sessions (SessionSaveCalled s # es) = s # saved_sessions es"
| "saved_sessions (e # es) = saved_sessions es"

fun added_users :: "'a event list \<Rightarrow> User list" where
  "added_users [] = []"
| "added_users (AddUserCalled u # es) = u # added_users es"
| "added_users (e # es) = added_users es"

fun authenticator_calls :: "'a event list \<Rightarrow> 'a event list" where
  "authenticator_calls [] = []"
| "authenticator_calls (CanLoginCalled a # es) = CanLoginCalled a # authenticator_calls es"
| "authenticator_calls (LoginCalled a # es) = LoginCalled a # authenticator_calls es"
| "authenticator_calls (e # es) = authenticator_calls es"

fun init_calls :: "'a event list \<Rightarrow> 'a list" where
  "init_calls [] = []"
| "init_calls (InitCalled a # es) = a # init_calls es"
| "init_calls (e # es) = init_calls es"

section \<open>Sample inputs\<close>

definition alice :: User where
  "alice = \<lparr> Username = ''alice'', Password = [], Name = ''Alice'', Roles = [''admin''],
             AuthType = AuthSession, AuthSource = AuthViaLocalPassword, Email = [],
             Projects = [''p1''], Expiration = 0 \<rparr>"

definition blank_session :: Session where
  \<comment> \<open>a fresh session with the store's default options (30 days)\<close>
  "blank_session = \<lparr> Values = Map.empty, Options = \<lparr> MaxAge = 2592000 \<rparr>, IsNew = True \<rparr>"

definition blank_request :: Request where
  "blank_request = \<lparr> FormValue = (\<lambda>k. []), Header = (\<lambda>k. []), Cookies = Map.empty,
                     Context = Map.empty \<rparr>"

definition login_request :: Request where
  "login_request =
     blank_request\<lparr> FormValue := (\<lambda>k. if k = ''username'' then ''alice'' else []) \<rparr>"

text \<open>
  A world with authenticators numbered 0, 1, 2: number 0 never handles a login,
  number 1 logs alice in, number 2 handles the login and rejects it. The user table
  answers \<open>lookup\<close> and the session store hands out \<open>sess\<close> for the cookie.
\<close>

definition sample_env :: "User option \<times> error option \<Rightarrow> Session \<Rightarrow> nat Env" where
  "sample_env lookup sess =
     \<lparr> store_Get = (\<lambda>r. (sess, None)),
       store_New = (\<lambda>r. (blank_session, None)),
       store_Save = (\<lambda>r s. None),
       db_GetUser = (\<lambda>name. lookup),
       db_AddUser = (\<lambda>u. None),
       AuthViaJWT = (\<lambda>r. (None, None)),
       CanLogin = (\<lambda>a u r. 1 \<le> a),
       Login_of = (\<lambda>a u r. if a = 1 then (Some alice, None)
                             else (None, Some (Error ''wrong password''))) \<rparr>"

definition sample_auth :: "nat list \<Rightarrow> 64 word \<Rightarrow> nat Authentication" where
  "sample_auth registry maxAge =
     \<lparr> sessionStore = [], SessionMaxAge = maxAge, authenticators = registry,
       LdapAuth = None, JwtAuth = None, LocalAuth = None \<rparr>"

definition saved_alice_session :: Session where
  \<comment> \<open>the session Login saves for alice\<close>
  "saved_alice_session = Login_session (sample_auth [1] 0) blank_session alice"

definition alice_session :: Session where
  \<comment> \<open>the same session as a later request presents it: no longer new\<close>
  "alice_session = saved_alice_session\<lparr> IsNew := False \<rparr>"

definition decoded_alice :: User where
  \<comment> \<open>what \<open>AuthViaSession\<close> makes of alice's session\<close>
  "decoded_alice = \<lparr> Username = ''alice'', Password = [], Name = [], Roles = [''p1''],
                      AuthType = AuthSession, AuthSource = - 1, Email = [],
                      Projects = [''p1''], Expiration = 0 \<rparr>"

definition session_without_roles :: Session where
  "session_without_roles =
     \<lparr> Values = [''username'' \<mapsto> AString ''alice'', ''projects'' \<mapsto> AStrings [''p1'']],
       Options = \<lparr> MaxAge = 2592000 \<rparr>, IsNew = False \<rparr>"

definition sample_ienv :: "(Authenticator \<Rightarrow> error option) \<Rightarrow> unit InitEnv" where
  "sample_ienv results =
     \<lparr> Getenv_SESSION_KEY = ''AQID'',
       rand_Read = ([], None),
       base64_DecodeString = (\<lambda>s. ([1, 2, 3], None)),
       Init_of = (\<lambda>a c. results a) \<rparr>"

definition cookie_init_fails :: "Authenticator \<Rightarrow> error option" where
  "cookie_init_fails a =
     (if a = JWTCookieSessionAuthenticator then Some (Error ''no cookie name configured'')
      else None)"

definition sample_configs :: "string \<Rightarrow> unit option" where
  "sample_configs = [''jwt'' \<mapsto> ()]"

section \<open>The context accessor\<close>

text \<open>
  C10. A context that carries no value under the request-scoped user key makes
  \<open>GetUser\<close> return nil, without a panic; and \<open>GetUser\<close> returns an identity
  exactly when that identity is what the context holds under the key.
\<close>

theorem GetUser_absent_or_attached:
  "(ctx ContextUserKey = None \<longrightarrow> GetUser ctx = Returned None) \<and>
   (GetUser ctx = Returned (Some u) \<longleftrightarrow> ctx ContextUserKey = Some (AUser (Some u)))"
  by (auto simp: GetUser_def Context_Value_def split: option.splits any.splits)

theorem GetUser_absent_or_attached_witness:
  "Context blank_request ContextUserKey = None \<and>
   GetUser (Context blank_request) = Returned None \<and>
   GetUser (Context (with_user blank_request (Some alice))) = Returned (Some alice)"
proof -
  have absent: "Context blank_request ContextUserKey = None"
    by (simp add: blank_request_def)
  have attached: "Context (with_user blank_request (Some alice)) ContextUserKey
      = Some (AUser (Some alice))"
    by (simp add: with_user_def WithValue_def)
  show ?thesis
    using absent attached
      GetUser_absent_or_attached [of "Context blank_request" alice]
      GetUser_absent_or_attached [of "Context (with_user blank_request (Some alice))" alice]
    by simp
qed

section \<open>Identities rebuilt from a session\<close>

text \<open>
  C9. Every identity that \<open>AuthViaSession\<close> returns has the authentication type
  \<open>AuthSession\<close> and the authentication source \<open>-1\<close>, which is none of the named
  sources \<open>AuthViaLocalPassword\<close>, \<open>AuthViaLDAP\<close> and \<open>AuthViaToken\<close>.
\<close>

theorem AuthViaSession_type_and_source:
  "AuthViaSession env r = (evs, Some u, err) \<Longrightarrow>
     AuthType u = AuthSession \<and> AuthSource u = - 1 \<and>
     AuthSource u \<noteq> AuthViaLocalPassword \<and> AuthSource u \<noteq> AuthViaLDAP \<and>
     AuthSource u \<noteq> AuthViaToken"
  by (auto simp: AuthViaSession_def AuthViaLocalPassword_def AuthViaLDAP_def AuthViaToken_def
      split: prod.splits option.splits if_splits)

theorem AuthViaSession_type_and_source_witness:
  "AuthViaSession (sample_env (None, None) alice_session) blank_request =
     ([SessionGetCalled],
      Some \<lparr> Username = ''alice'', Password = [], Name = [], Roles = [''p1''],
             AuthType = AuthSession, AuthSource = - 1, Email = [], Projects = [''p1''],
             Expiration = 0 \<rparr>, None) \<and>
   AuthSession = AuthSession \<and> (- 1 :: int) \<noteq> AuthViaLocalPassword \<and>
   (- 1 :: int) \<noteq> AuthViaLDAP \<and> (- 1 :: int) \<noteq> AuthViaToken"
proof -
  have run: "AuthViaSession (sample_env (None, None) alice_session) blank_request =
     ([SessionGetCalled],
      Some \<lparr> Username = ''alice'', Password = [], Name = [], Roles = [''p1''],
             AuthType = AuthSession, AuthSource = - 1, Email = [], Projects = [''p1''],
             Expiration = 0 \<rparr>, None)"
    by (simp add: AuthViaSession_def sample_env_def alice_session_def saved_alice_session_def
        Login_session_def sample_auth_def blank_session_def alice_def)
  show ?thesis
    using run AuthViaSession_type_and_source [OF run] by simp
qed

section \<open>Facts about the effect lists\<close>

lemma saved_sessions_append: "saved_sessions (xs @ ys) = saved_sessions xs @ saved_sessions ys"
  by (induction xs rule: saved_sessions.induct) simp_all

lemma added_users_append: "added_users (xs @ ys) = added_users xs @ added_users ys"
  by (induction xs rule: added_users.induct) simp_all

lemma authenticator_calls_append:
  "authenticator_calls (xs @ ys) = authenticator_calls xs @ authenticator_calls ys"
  by (induction xs rule: authenticator_calls.induct) simp_all

lemma init_calls_append: "init_calls (xs @ ys) = init_calls xs @ init_calls ys"
  by (induction xs rule: init_calls.induct) simp_all

lemma calls_of_CanLogin:
  "authenticator_calls (map CanLoginCalled xs) = map CanLoginCalled xs"
  "saved_sessions (map CanLoginCalled xs) = []"
  "added_users (map CanLoginCalled xs) = []"
  by (induction xs) simp_all

section \<open>The pieces of Login\<close>

lemma Login_candidate_quiet:
  assumes "Login_candidate env r = (evs, dbUser, err)"
  shows "authenticator_calls evs = []" and "saved_sessions evs = []" and "added_users evs = []"
  using assms by (auto simp: Login_candidate_def Let_def split: if_splits prod.splits)

lemma Login_run:
  assumes "Login_candidate env r = (evs0, dbUser, err0)"
  shows "Login env auth r =
           (evs0 @ fst (Login_loop env auth r dbUser err0 (authenticators auth)),
            snd (Login_loop env auth r dbUser err0 (authenticators auth)))"
  using assms by (simp add: Login_def split: prod.splits)

lemma Login_attempt_calls:
  "authenticator_calls (fst (Login_attempt env auth r dbUser a)) = [LoginCalled a]"
  by (simp add: Login_attempt_def Let_def authenticator_calls_append
      split: prod.splits option.splits)

lemma Login_attempt_failure:
  "snd (Login_of env a dbUser r) = Some e \<Longrightarrow>
     snd (Login_attempt env auth r dbUser a) = OnFailure (Some e)"
  by (cases "Login_of env a dbUser r") (simp add: Login_attempt_def)

lemma Login_attempt_success:
  assumes "snd (Login_attempt env auth r dbUser a) = OnSuccess r'"
  shows "\<exists>u. Login_of env a dbUser r = (Some u, None) \<and> r' = with_user r (Some u) \<and>
           saved_sessions (fst (Login_attempt env auth r dbUser a)) =
             [Login_session auth (fst (store_New env r)) u] \<and>
           added_users (fst (Login_attempt env auth r dbUser a)) =
             (if dbUser = None then [u] else [])"
proof (cases "Login_of env a dbUser r")
  case (Pair user lerr)
  show ?thesis
  proof (cases "store_New env r")
    case New: (Pair session nerr)
    from assms Pair New obtain u where u: "user = Some u" "lerr = None" "nerr = None"
      by (auto simp: Login_attempt_def Let_def split: option.splits)
    from assms Pair New u
    have save: "store_Save env r (Login_session auth session u) = None"
      by (auto simp: Login_attempt_def Let_def split: option.splits)
    show ?thesis
      using assms Pair New u save
      by (simp add: Login_attempt_def Let_def saved_sessions_append added_users_append)
  qed
qed

lemma Login_attempt_no_add:
  "dbUser \<noteq> None \<Longrightarrow> added_users (fst (Login_attempt env auth r dbUser a)) = []"
  by (cases "Login_of env a dbUser r"; cases "store_New env r")
     (auto simp: Login_attempt_def Let_def added_users_append split: option.splits)

lemma Login_loop_none:
  "\<forall>x\<in>set as. \<not> CanLogin env x dbUser r \<Longrightarrow>
     Login_loop env auth r dbUser err as =
       (map CanLoginCalled as @ [Log LDebug ''login failed: no authenticator applied''],
        OnFailure err)"
  by (induction as) simp_all

lemma Login_loop_first:
  "\<forall>x\<in>set xs. \<not> CanLogin env x dbUser r \<Longrightarrow> CanLogin env a dbUser r \<Longrightarrow>
     Login_loop env auth r dbUser err (xs @ a # ys) =
       (map CanLoginCalled xs @ CanLoginCalled a # fst (Login_attempt env auth r dbUser a),
        snd (Login_attempt env auth r dbUser a))"
  by (induction xs) (simp_all split: prod.splits)

lemma Login_loop_cases:
  "Login_loop env auth r dbUser err as =
       (map CanLoginCalled as @ [Log LDebug ''login failed: no authenticator applied''],
        OnFailure err)
   \<or> (\<exists>xs a. Login_loop env auth r dbUser err as =
         (map CanLoginCalled xs @ CanLoginCalled a # fst (Login_attempt env auth r dbUser a),
          snd (Login_attempt env auth r dbUser a)))"
proof (cases "\<exists>x\<in>set as. CanLogin env x dbUser r")
  case True
  then obtain xs a ys where split: "as = xs @ a # ys" and a: "CanLogin env a dbUser r"
      and xs: "\<forall>x\<in>set xs. \<not> CanLogin env x dbUser r"
    using split_list_first_prop [of as "\<lambda>x. CanLogin env x dbUser r"] by blast
  have "Login_loop env auth r dbUser err as =
         (map CanLoginCalled xs @ CanLoginCalled a # fst (Login_attempt env auth r dbUser a),
          snd (Login_attempt env auth r dbUser a))"
    unfolding split by (rule Login_loop_first [OF xs a])
  then show ?thesis by blast
next
  case False
  then have "\<forall>x\<in>set as. \<not> CanLogin env x dbUser r" by blast
  then show ?thesis by (simp add: Login_loop_none)
qed

lemma GetUser_with_user: "GetUser (Context (with_user r user)) = Returned user"
  by (simp add: GetUser_def with_user_def WithValue_def Context_Value_def)

lemma sample_candidate_new:
  "Login_candidate (sample_env (None, Some ErrNoRows) blank_session) login_request
     = ([GetUserCalled ''alice''], None, Some ErrNoRows)"
  by (simp add: Login_candidate_def sample_env_def login_request_def blank_request_def)

lemma sample_candidate_known:
  "Login_candidate (sample_env (Some alice, None) blank_session) login_request
     = ([GetUserCalled ''alice''], Some alice, None)"
  by (simp add: Login_candidate_def sample_env_def login_request_def blank_request_def)

lemma sample_login_new:
  "snd (Login (sample_env (None, Some ErrNoRows) blank_session) (sample_auth [1] d)
         login_request) = OnSuccess (with_user login_request (Some alice))"
  unfolding Login_run [OF sample_candidate_new]
  by (simp add: Login_attempt_def Let_def sample_env_def sample_auth_def)

lemma sample_login_known:
  "snd (Login (sample_env (Some alice, None) blank_session) (sample_auth [1] d)
         login_request) = OnSuccess (with_user login_request (Some alice))"
  unfolding Login_run [OF sample_candidate_known]
  by (simp add: Login_attempt_def Let_def sample_env_def sample_auth_def)

section \<open>The order of the authenticators\<close>

text \<open>
  C4. Login asks \<open>CanLogin\<close> of the authenticators in the order of the registry and
  calls \<open>Login\<close> only on the first one that answers true; no later authenticator is
  asked anything. When none answers true, each is asked once, in order. When the
  chosen authenticator's \<open>Login\<close> returns an error, the failure continuation gets
  that error.
\<close>

theorem Login_commits_to_first_willing:
  assumes "Login_candidate env r = (evs0, dbUser, err0)"
  shows "((\<forall>x\<in>set (authenticators auth). \<not> CanLogin env x dbUser r) \<longrightarrow>
            authenticator_calls (fst (Login env auth r)) =
              map CanLoginCalled (authenticators auth)) \<and>
         (authenticators auth = xs @ a # ys \<and> (\<forall>x\<in>set xs. \<not> CanLogin env x dbUser r) \<and>
            CanLogin env a dbUser r \<longrightarrow>
            authenticator_calls (fst (Login env auth r)) =
              map CanLoginCalled xs @ [CanLoginCalled a, LoginCalled a] \<and>
            (\<forall>e. snd (Login_of env a dbUser r) = Some e \<longrightarrow>
               snd (Login env auth r) = OnFailure (Some e)))"
proof (intro conjI impI)
  assume "\<forall>x\<in>set (authenticators auth). \<not> CanLogin env x dbUser r"
  then show "authenticator_calls (fst (Login env auth r)) =
      map CanLoginCalled (authenticators auth)"
    using Login_candidate_quiet(1) [OF assms]
    by (simp add: Login_run [OF assms] Login_loop_none authenticator_calls_append
        calls_of_CanLogin)
next
  assume h: "authenticators auth = xs @ a # ys \<and> (\<forall>x\<in>set xs. \<not> CanLogin env x dbUser r) \<and>
            CanLogin env a dbUser r"
  then have loop: "Login_loop env auth r dbUser err0 (authenticators auth) =
       (map CanLoginCalled xs @ CanLoginCalled a # fst (Login_attempt env auth r dbUser a),
        snd (Login_attempt env auth r dbUser a))"
    by (simp add: Login_loop_first)
  show "authenticator_calls (fst (Login env auth r)) =
      map CanLoginCalled xs @ [CanLoginCalled a, LoginCalled a]"
    using Login_candidate_quiet(1) [OF assms]
    by (simp add: Login_run [OF assms] loop authenticator_calls_append calls_of_CanLogin
        Login_attempt_calls)
  show "\<forall>e. snd (Login_of env a dbUser r) = Some e \<longrightarrow>
               snd (Login env auth r) = OnFailure (Some e)"
    by (simp add: Login_run [OF assms] loop Login_attempt_failure)
qed

theorem Login_commits_to_first_willing_witness:
  "authenticator_calls (fst (Login (sample_env (None, Some ErrNoRows) blank_session)
       (sample_auth [0, 0] 0) login_request)) = [CanLoginCalled 0, CanLoginCalled 0] \<and>
   authenticator_calls (fst (Login (sample_env (None, Some ErrNoRows) blank_session)
       (sample_auth [0, 2, 1] 0) login_request))
     = [CanLoginCalled 0, CanLoginCalled 2, LoginCalled 2] \<and>
   snd (Login (sample_env (None, Some ErrNoRows) blank_session)
       (sample_auth [0, 2, 1] 0) login_request) = OnFailure (Some (Error ''wrong password''))"
  using Login_commits_to_first_willing
          [OF sample_candidate_new, of "sample_auth [0, 0] 0" "[]" 0 "[]"]
        Login_commits_to_first_willing
          [OF sample_candidate_new, of "sample_auth [0, 2, 1] 0" "[0]" 2 "[1]"]
  by (simp add: sample_env_def sample_auth_def)

section \<open>Registering a first-time user\<close>

text \<open>
  C8. When Login ends in the success continuation and no candidate was found in the
  user table before the credentials were checked, \<open>AddUser\<close> is called exactly once,
  with the identity that is attached to the request; when a candidate was found,
  \<open>AddUser\<close> is not called.
\<close>

theorem Login_registers_first_time_user:
  assumes "Login_candidate env r = (evs0, dbUser, err0)"
  shows "(snd (Login env auth r) = OnSuccess r' \<longrightarrow>
            (\<exists>u. GetUser (Context r') = Returned (Some u) \<and>
                 added_users (fst (Login env auth r)) = (if dbUser = None then [u] else []))) \<and>
         (dbUser \<noteq> None \<longrightarrow> added_users (fst (Login env auth r)) = [])"
proof -
  note quiet = Login_candidate_quiet(3) [OF assms]
  from Login_loop_cases [of env auth r dbUser err0 "authenticators auth"]
  show ?thesis
  proof
    assume "Login_loop env auth r dbUser err0 (authenticators auth) =
       (map CanLoginCalled (authenticators auth) @
          [Log LDebug ''login failed: no authenticator applied''], OnFailure err0)"
    then show ?thesis
      using quiet by (simp add: Login_run [OF assms] added_users_append calls_of_CanLogin)
  next
    assume "\<exists>xs a. Login_loop env auth r dbUser err0 (authenticators auth) =
         (map CanLoginCalled xs @ CanLoginCalled a # fst (Login_attempt env auth r dbUser a),
          snd (Login_attempt env auth r dbUser a))"
    then obtain xs a where loop: "Login_loop env auth r dbUser err0 (authenticators auth) =
         (map CanLoginCalled xs @ CanLoginCalled a # fst (Login_attempt env auth r dbUser a),
          snd (Login_attempt env auth r dbUser a))" by blast
    have added: "added_users (fst (Login env auth r)) =
        added_users (fst (Login_attempt env auth r dbUser a))"
      using quiet by (simp add: Login_run [OF assms] loop added_users_append calls_of_CanLogin)
    have out: "snd (Login env auth r) = snd (Login_attempt env auth r dbUser a)"
      by (simp add: Login_run [OF assms] loop)
    have first: "\<exists>u. GetUser (Context r') = Returned (Some u) \<and>
        added_users (fst (Login env auth r)) = (if dbUser = None then [u] else [])"
      if "snd (Login env auth r) = OnSuccess r'"
    proof -
      from that out have "snd (Login_attempt env auth r dbUser a) = OnSuccess r'" by simp
      from Login_attempt_success [OF this] obtain u where
        "r' = with_user r (Some u)"
        "added_users (fst (Login_attempt env auth r dbUser a)) =
           (if dbUser = None then [u] else [])" by blast
      then show ?thesis using added by (auto simp: GetUser_with_user)
    qed
    have second: "added_users (fst (Login env auth r)) = []" if "dbUser \<noteq> None"
      using that added by (simp add: Login_attempt_no_add)
    show ?thesis using first second by blast
  qed
qed

theorem Login_registers_first_time_user_witness:
  "snd (Login (sample_env (None, Some ErrNoRows) blank_session) (sample_auth [1] 0)
          login_request) = OnSuccess (with_user login_request (Some alice)) \<and>
   added_users (fst (Login (sample_env (None, Some ErrNoRows) blank_session)
          (sample_auth [1] 0) login_request)) = [alice] \<and>
   added_users (fst (Login (sample_env (Some alice, None) blank_session)
          (sample_auth [1] 0) login_request)) = []"
  using sample_login_new [of 0]
    Login_registers_first_time_user [OF sample_candidate_new, of "sample_auth [1] 0"
      "with_user login_request (Some alice)"]
    Login_registers_first_time_user [OF sample_candidate_known, of "sample_auth [1] 0"
      "with_user login_request (Some alice)"]
  by (simp add: GetUser_with_user)

section \<open>Logout\<close>

text \<open>
  C6. When the session of the request is new, Logout saves nothing and calls the
  success continuation. Whenever the session was fetched without an error and the
  save, where one is needed, succeeds, Logout calls the success continuation.
\<close>

theorem Logout_new_session_saves_nothing:
  "(fst (store_Get env r) = s \<and> snd (store_Get env r) = None \<and> IsNew s \<longrightarrow>
      saved_sessions (fst (Logout env r)) = [] \<and> snd (Logout env r) = OnSuccess r) \<and>
   (fst (store_Get env r) = s \<and> snd (store_Get env r) = None \<and>
      (IsNew s \<or> store_Save env r (s\<lparr> Options := (Options s)\<lparr> MaxAge := - 1 \<rparr> \<rparr>) = None) \<longrightarrow>
      snd (Logout env r) = OnSuccess r)"
  by (cases "store_Get env r") (auto simp: Logout_def Let_def split: option.splits)

theorem Logout_new_session_saves_nothing_witness:
  "IsNew blank_session \<and>
   saved_sessions (fst (Logout (sample_env (None, None) blank_session) blank_request)) = [] \<and>
   snd (Logout (sample_env (None, None) blank_session) blank_request) = OnSuccess blank_request \<and>
   \<not> IsNew alice_session \<and>
   snd (Logout (sample_env (None, None) alice_session) blank_request) = OnSuccess blank_request"
  using Logout_new_session_saves_nothing
          [of "sample_env (None, None) blank_session" blank_request blank_session]
        Logout_new_session_saves_nothing
          [of "sample_env (None, None) alice_session" blank_request alice_session]
  by (simp add: sample_env_def blank_session_def alice_session_def)

section \<open>The max-age of the login session\<close>

lemma bits_le: "n < 2 ^ k \<Longrightarrow> bits n \<le> k"
proof (induction k arbitrary: n)
  case 0
  then show ?case by simp
next
  case (Suc k)
  show ?case
  proof (cases "n \<le> 0")
    case True
    then show ?thesis by simp
  next
    case False
    from Suc.prems have "n div 2 < 2 ^ k" by simp
    from Suc.IH [OF this] False show ?thesis by (subst bits.simps) simp
  qed
qed

lemma round53_small: "\<bar>m\<bar> < 2 ^ 53 \<Longrightarrow> round53 (m, e) = (m, e)"
  using bits_le [of "\<bar>m\<bar>" 53] by (simp add: round53_def Let_def)

lemma go_quot_rem_whole:
  "go_quot (n * Second) Second = n" "go_rem (n * Second) Second = 0"
  by (auto simp: go_quot_def go_rem_def Second_def abs_mult zero_less_mult_iff mult_less_0_iff)

lemma whole_seconds_bound:
  fixes d :: "64 word"
  assumes "sint d = n * Second"
  shows "\<bar>n\<bar> < 2 ^ 53"
proof -
  have "- (2 ^ 63) \<le> sint d" "sint d < 2 ^ 63"
    using sint_ge [of d] sint_lt [of d] by simp_all
  with assms show ?thesis by (simp add: Second_def)
qed

text \<open>A duration of \<open>n\<close> whole seconds converts to exactly \<open>n\<close>.\<close>

lemma Duration_Seconds_whole:
  assumes "sint d = n * Second"
  shows "int_of_float64 (Duration_Seconds d) = n"
proof -
  have small: "\<bar>n\<bar> < 2 ^ 53" by (rule whole_seconds_bound [OF assms])
  have "Duration_Seconds d = float64_add (float64_of_int n) (float64_quot 0 1000000000)"
    by (simp add: Duration_Seconds_def assms go_quot_rem_whole Let_def)
  also have "\<dots> = float64_add (n, 0) (0, 0)"
    by (simp add: float64_of_int_def round53_small [OF small] float64_quot_def)
  also have "\<dots> = (n, 0)"
    by (simp add: float64_add_def round53_small [OF small])
  finally show ?thesis by (simp add: int_of_float64_def)
qed

lemma Login_success_session:
  assumes "snd (Login env auth r) = OnSuccess r'"
  shows "\<exists>u. saved_sessions (fst (Login env auth r)) =
               [Login_session auth (fst (store_New env r)) u]"
proof -
  obtain evs0 dbUser err0 where cand: "Login_candidate env r = (evs0, dbUser, err0)"
    by (cases "Login_candidate env r") auto
  note quiet = Login_candidate_quiet(2) [OF cand]
  from Login_loop_cases [of env auth r dbUser err0 "authenticators auth"]
  show ?thesis
  proof
    assume "Login_loop env auth r dbUser err0 (authenticators auth) =
       (map CanLoginCalled (authenticators auth) @
          [Log LDebug ''login failed: no authenticator applied''], OnFailure err0)"
    with assms show ?thesis by (simp add: Login_run [OF cand])
  next
    assume "\<exists>xs a. Login_loop env auth r dbUser err0 (authenticators auth) =
         (map CanLoginCalled xs @ CanLoginCalled a # fst (Login_attempt env auth r dbUser a),
          snd (Login_attempt env auth r dbUser a))"
    then obtain xs a where loop: "Login_loop env auth r dbUser err0 (authenticators auth) =
         (map CanLoginCalled xs @ CanLoginCalled a # fst (Login_attempt env auth r dbUser a),
          snd (Login_attempt env auth r dbUser a))" by blast
    have saved: "saved_sessions (fst (Login env auth r)) =
        saved_sessions (fst (Login_attempt env auth r dbUser a))"
      using quiet by (simp add: Login_run [OF cand] loop saved_sessions_append calls_of_CanLogin)
    from assms have "snd (Login_attempt env auth r dbUser a) = OnSuccess r'"
      by (simp add: Login_run [OF cand] loop)
    from Login_attempt_success [OF this] saved show ?thesis by auto
  qed
qed

lemma Options_of_Login_session:
  "Options (Login_session auth session u) =
     (if SessionMaxAge auth \<noteq> 0
      then (Options session)
             \<lparr> MaxAge := int_of_float64 (Duration_Seconds (SessionMaxAge auth)) \<rparr>
      else Options session)"
  by (simp add: Login_session_def Let_def)

text \<open>
  C7, as the code has it. After a successful login: when \<open>SessionMaxAge\<close> is zero,
  the options of the saved session are those the store gave the new session; when it
  is not zero, the max-age of the saved session is \<open>int(SessionMaxAge.Seconds())\<close>,
  and that is exactly \<open>n\<close> when the duration is \<open>n\<close> whole seconds.
\<close>

theorem Login_session_max_age:
  assumes "snd (Login env auth r) = OnSuccess r'"
  shows "(SessionMaxAge auth = 0 \<longrightarrow>
            map Options (saved_sessions (fst (Login env auth r))) =
              [Options (fst (store_New env r))]) \<and>
         (SessionMaxAge auth \<noteq> 0 \<longrightarrow>
            map (MaxAge \<circ> Options) (saved_sessions (fst (Login env auth r))) =
              [int_of_float64 (Duration_Seconds (SessionMaxAge auth))]) \<and>
         (SessionMaxAge auth \<noteq> 0 \<and> sint (SessionMaxAge auth) = n * Second \<longrightarrow>
            map (MaxAge \<circ> Options) (saved_sessions (fst (Login env auth r))) = [n])"
proof -
  from Login_success_session [OF assms] obtain u where
    saved: "saved_sessions (fst (Login env auth r)) =
      [Login_session auth (fst (store_New env r)) u]" by blast
  show ?thesis
    by (auto simp: saved Options_of_Login_session Duration_Seconds_whole)
qed

theorem Login_session_max_age_witness:
  "snd (Login (sample_env (Some alice, None) blank_session)
          (sample_auth [1] 3600000000000) login_request)
     = OnSuccess (with_user login_request (Some alice)) \<and>
   sint (3600000000000 :: 64 word) = 3600 * Second \<and>
   map (MaxAge \<circ> Options)
     (saved_sessions (fst (Login (sample_env (Some alice, None) blank_session)
        (sample_auth [1] 3600000000000) login_request))) = [3600] \<and>
   map Options
     (saved_sessions (fst (Login (sample_env (Some alice, None) blank_session)
        (sample_auth [1] 0) login_request))) = [Options blank_session]"
proof -
  have whole: "sint (3600000000000 :: 64 word) = 3600 * Second"
    by (simp add: Second_def)
  have hour: "SessionMaxAge (sample_auth [1] 3600000000000) \<noteq> 0 \<and>
      sint (SessionMaxAge (sample_auth [1] 3600000000000)) = 3600 * Second"
    by (simp add: sample_auth_def Second_def)
  have zero: "SessionMaxAge (sample_auth [1] 0) = 0"
    by (simp add: sample_auth_def)
  have new: "fst (store_New (sample_env (Some alice, None) blank_session) login_request)
      = blank_session"
    by (simp add: sample_env_def)
  from hour Login_session_max_age [OF sample_login_known [of 3600000000000], of 3600]
  have a: "map (MaxAge \<circ> Options)
     (saved_sessions (fst (Login (sample_env (Some alice, None) blank_session)
        (sample_auth [1] 3600000000000) login_request))) = [3600]"
    by blast
  from zero Login_session_max_age [OF sample_login_known [of 0], of 0]
  have b: "map Options
     (saved_sessions (fst (Login (sample_env (Some alice, None) blank_session)
        (sample_auth [1] 0) login_request))) = [Options blank_session]"
    unfolding new by blast
  from whole sample_login_known [of 3600000000000] a b show ?thesis by blast
qed

text \<open>
  A configured duration of 1.5 seconds is not zero, and the saved session gets the
  max-age 1; one second is not the configured duration.
\<close>

theorem Login_session_max_age_fraction:
  "snd (Login (sample_env (Some alice, None) blank_session)
          (sample_auth [1] 1500000000) login_request)
     = OnSuccess (with_user login_request (Some alice)) \<and>
   SessionMaxAge (sample_auth [1] 1500000000) \<noteq> 0 \<and>
   map (MaxAge \<circ> Options)
     (saved_sessions (fst (Login (sample_env (Some alice, None) blank_session)
        (sample_auth [1] 1500000000) login_request))) = [1] \<and>
   1 * Second \<noteq> sint (SessionMaxAge (sample_auth [1] 1500000000))"
proof -
  have sec: "int_of_float64 (Duration_Seconds 1500000000) = 1" by code_simp
  show ?thesis
    unfolding Login_run [OF sample_candidate_known]
    by (simp add: Login_attempt_def Options_of_Login_session sample_env_def sample_auth_def
        sec Second_def Let_def)
qed

section \<open>Sessions read back by AuthViaSession\<close>

text \<open>
  The third lookup of \<open>AuthViaSession\<close> reads the key \<open>projects\<close> again: the roles
  of every identity it returns are its projects, and its error about a missing
  \<open>roles\<close> key is never returned.
\<close>

lemma AuthViaSession_roles_are_projects:
  "AuthViaSession env r = (evs, Some u, err) \<Longrightarrow> Roles u = Projects u"
  by (auto simp: AuthViaSession_def split: prod.splits option.splits if_splits)

lemma AuthViaSession_no_roles_error:
  "snd (store_Get env r) = None \<Longrightarrow>
     snd (snd (AuthViaSession env r)) \<noteq> Some (Error ''No key roles in session'')"
  by (cases "store_Get env r")
     (auto simp: AuthViaSession_def split: prod.splits option.splits if_splits)

text \<open>
  C1, at a failing input. Alice logs in for the first time with the role \<open>admin\<close>
  and the project \<open>p1\<close>; Login saves a session with both. Read back from that
  session, her identity has the role \<open>p1\<close>: the roles are not those of the login.
\<close>

theorem session_roundtrip_loses_roles:
  "snd (Login (sample_env (None, Some ErrNoRows) blank_session) (sample_auth [1] 0)
          login_request) = OnSuccess (with_user login_request (Some alice)) \<and>
   saved_sessions (fst (Login (sample_env (None, Some ErrNoRows) blank_session)
          (sample_auth [1] 0) login_request)) = [saved_alice_session] \<and>
   AuthViaSession (sample_env (None, None) alice_session) blank_request =
     ([SessionGetCalled], Some decoded_alice, None) \<and>
   Roles alice = [''admin''] \<and> Roles decoded_alice = [''p1''] \<and>
   set (Roles decoded_alice) \<noteq> set (Roles alice)"
  by (simp add: Login_def Login_candidate_def Login_attempt_def Let_def
      sample_env_def sample_auth_def login_request_def blank_request_def
      saved_alice_session_def alice_session_def AuthViaSession_def Login_session_def
      blank_session_def alice_def decoded_alice_def)

text \<open>
  C2, at a failing input. A session that is not new and holds \<open>username\<close> and
  \<open>projects\<close> but no \<open>roles\<close> is decoded without an error, and Auth calls the
  success continuation with the identity made from it.
\<close>

theorem session_without_roles_is_accepted:
  "\<not> IsNew session_without_roles \<and>
   Values session_without_roles ''username'' = Some (AString ''alice'') \<and>
   Values session_without_roles ''roles'' = None \<and>
   AuthViaSession (sample_env (None, None) session_without_roles) blank_request =
     ([SessionGetCalled], Some decoded_alice, None) \<and>
   snd (Auth (sample_env (None, None) session_without_roles) blank_request) =
     OnSuccess (with_user blank_request (Some decoded_alice))"
  by (simp add: Auth_def AuthViaSession_def sample_env_def session_without_roles_def
      decoded_alice_def)

section \<open>Login with an empty registry\<close>

text \<open>
  The variable \<open>err\<close> that Login hands to the failure continuation is overwritten
  by the result of the user lookup whenever a username was sent.
\<close>

lemma Login_empty_registry:
  "authenticators auth = [] \<Longrightarrow>
     snd (Login env auth r) =
       OnFailure (if FormValue r ''username'' = [] then Some (Error ''no authenticator applied'')
                  else snd (db_GetUser env (FormValue r ''username'')))"
  by (simp add: Login_def Login_candidate_def Let_def split: prod.splits)

text \<open>
  C3, at a failing input. The registry is empty and the request names alice. When
  the lookup finds her, the failure continuation is called with a nil error; when
  the lookup finds no row, it is called with \<open>sql.ErrNoRows\<close>. Neither is the error
  \<open>no authenticator applied\<close>.
\<close>

theorem Login_empty_registry_passes_lookup_error:
  "authenticators (sample_auth [] 0) = [] \<and>
   Login (sample_env (Some alice, None) blank_session) (sample_auth [] 0) login_request =
     ([GetUserCalled ''alice'', Log LDebug ''login failed: no authenticator applied''],
      OnFailure None) \<and>
   Login (sample_env (None, Some ErrNoRows) blank_session) (sample_auth [] 0) login_request =
     ([GetUserCalled ''alice'', Log LDebug ''login failed: no authenticator applied''],
      OnFailure (Some ErrNoRows))"
  by (simp add: Login_def Login_candidate_def Let_def sample_env_def sample_auth_def
      login_request_def blank_request_def)

section \<open>Init and the optional authenticators\<close>

lemma Init_sessionStore_calls: "init_calls (fst (Init_sessionStore ienv)) = []"
  by (simp add: Init_sessionStore_def split: prod.splits option.splits)

lemma Init_optional_calls:
  "Init_optional ienv configs auths = (evs, registry) \<Longrightarrow>
     init_calls evs = [JWTSessionAuthenticator, JWTSessionAuthenticator]"
  by (auto simp: Init_optional_def Let_def init_calls_append split: prod.splits if_splits)

lemma Init_optional_registry:
  "snd (Init_optional ienv configs auths) =
     (if Init_of ienv JWTSessionAuthenticator (configs ''jwt'') = None
      then auths @ [JWTSessionAuthenticator, JWTCookieSessionAuthenticator] else auths)"
  by (simp add: Init_optional_def Let_def split: prod.splits)

text \<open>\<open>Init\<close> is never called on the cookie session authenticator.\<close>

lemma Init_never_initialises_cookie_authenticator:
  "JWTCookieSessionAuthenticator \<notin> set (init_calls (fst (Init ienv configs)))"
proof -
  obtain evs0 key err0 where s: "Init_sessionStore ienv = (evs0, key, err0)"
    by (cases "Init_sessionStore ienv") auto
  have e0: "init_calls evs0 = []" using Init_sessionStore_calls [of ienv] s by simp
  show ?thesis
    using e0
    by (auto simp: Init_def s init_calls_append dest!: Init_optional_calls
        split: option.splits prod.splits)
qed

text \<open>
  C5, at a failing input. The \<open>Init\<close> method of the cookie session authenticator
  fails and every other \<open>Init\<close> succeeds. Initialisation succeeds, the method is
  never called (the one of the session authenticator is called twice), and the
  cookie session authenticator is in the registry.
\<close>

theorem Init_keeps_failing_cookie_authenticator:
  "Init_of (sample_ienv cookie_init_fails) JWTCookieSessionAuthenticator (sample_configs ''jwt'')
     = Some (Error ''no cookie name configured'') \<and>
   Init (sample_ienv cookie_init_fails) sample_configs =
     ([InitCalled JWTAuthenticator, InitCalled JWTSessionAuthenticator,
       InitCalled JWTSessionAuthenticator, InitCalled LocalAuthenticator],
      Some \<lparr> sessionStore = [1, 2, 3], SessionMaxAge = 0,
             authenticators = [JWTSessionAuthenticator, JWTCookieSessionAuthenticator,
                               LocalAuthenticator],
             LdapAuth = None, JwtAuth = Some JWTAuthenticator,
             LocalAuth = Some LocalAuthenticator \<rparr>,
      None)"
  by (simp add: Init_def Init_sessionStore_def Init_optional_def sample_ienv_def
      cookie_init_fails_def sample_configs_def Let_def)

end
